theory Spec2Isabelle
  imports Main "HOL-Library.Sublist"
begin

section \<open>Values and text\<close>

text \<open>
  The program is \<open>sdk/python/client.py\<close>: the dataclass \<open>RepoTokenizerClient\<close> with its
  request primitive \<open>_request\<close> and six operations that assemble a path and call it.

  A Python \<open>str\<close> is represented by the byte sequence of its UTF-8 encoding, as an
  Isabelle \<^typ>\<open>string\<close>: an ASCII character is one \<^typ>\<open>char\<close>, any other code point
  is several, all of them above 127. Under this reading \<open>s.encode("utf-8")\<close> is the
  identity, and \<open>if s\<close> on a \<open>str\<close> is \<open>s \<noteq> []\<close>. A \<open>str\<close> holding a lone surrogate has
  no UTF-8 encoding (\<open>quote\<close> raises \<open>UnicodeEncodeError\<close> on it) and so no representative
  here. \<open>bytes\<close> are a \<^typ>\<open>string\<close> as well.

  The values that reach a parameter \<open>dict\<close>: \<open>None\<close>, a \<open>str\<close>, an \<open>int\<close>.
\<close>

datatype pyval = PNone | PStr string | PInt int

text \<open>Python's truth test \<open>if v\<close> on these values.\<close>

fun truthy :: "pyval \<Rightarrow> bool" where
  "truthy PNone = False"
| "truthy (PStr s) = (s \<noteq> [])"
| "truthy (PInt n) = (n \<noteq> 0)"

text \<open>An argument annotated \<open>Optional[str]\<close> or \<open>Optional[int]\<close>, as a Python value.\<close>

definition opt_str :: "string option \<Rightarrow> pyval" where
  "opt_str x = (case x of None \<Rightarrow> PNone | Some s \<Rightarrow> PStr s)"

definition opt_int :: "int option \<Rightarrow> pyval" where
  "opt_int x = (case x of None \<Rightarrow> PNone | Some n \<Rightarrow> PInt n)"

text \<open>
  Decimal text of an integer: \<open>str(n)\<close>, and \<open>{n}\<close> in an f-string. (Interpreters that
  limit the number of digits in this conversion do so far beyond any token count or
  status code; the limit is not part of the model.)
\<close>

definition digit_char :: "nat \<Rightarrow> char" where
  "digit_char n = ''0123456789'' ! (n mod 10)"

fun str_nat :: "nat \<Rightarrow> string" where
  "str_nat n =
     (if n < 10 then [digit_char n]
      else str_nat (n div 10) @ [digit_char (n mod 10)])"

declare str_nat.simps [simp del]

definition str_int :: "int \<Rightarrow> string" where
  "str_int i = (if i < 0 then CHR ''-'' # str_nat (nat (- i)) else str_nat (nat i))"

text \<open>\<open>str(v)\<close>, as \<open>urlencode\<close> applies it to a value that is not \<open>bytes\<close>.\<close>

fun py_str :: "pyval \<Rightarrow> string" where
  "py_str PNone = ''None''"
| "py_str (PStr s) = s"
| "py_str (PInt n) = str_int n"

text \<open>A byte within a range.\<close>

definition byte_in :: "nat \<Rightarrow> nat \<Rightarrow> char \<Rightarrow> bool" where
  "byte_in lo hi c = (lo \<le> of_char c \<and> of_char c \<le> hi)"

section \<open>The functions of \<open>urllib.parse\<close> that the client calls\<close>

text \<open>
  These are the standard library's, written out from its behaviour (Python 3.7 and
  later, where \<open>~\<close> is among the characters never quoted).

  \<open>quote(string, safe='/')\<close> encodes the string as UTF-8 and maps every byte through a
  quoter: a byte among the always-safe characters or the ASCII characters of \<open>safe\<close>
  stays, any other byte \<open>b\<close> becomes \<open>'%{:02X}'.format(b)\<close>. The shortcuts of the
  library (empty input, input of safe characters only) return what the mapping gives.
\<close>

definition always_safe :: string where
  "always_safe =
     ''ABCDEFGHIJKLMNOPQRSTUVWXYZabcdefghijklmnopqrstuvwxyz0123456789_.-~''"

definition hex_digit :: "nat \<Rightarrow> char" where
  "hex_digit n = ''0123456789ABCDEF'' ! (n mod 16)"

definition percent_byte :: "char \<Rightarrow> string" where
  "percent_byte c =
     [CHR ''%'', hex_digit ((of_char c :: nat) div 16), hex_digit ((of_char c :: nat) mod 16)]"

definition ascii_only :: "string \<Rightarrow> string" where
  "ascii_only s = filter (\<lambda>c. (of_char c :: nat) < 128) s"

definition quoter :: "string \<Rightarrow> char \<Rightarrow> string" where
  "quoter safe c =
     (if c \<in> set (always_safe @ ascii_only safe) then [c] else percent_byte c)"

definition quote :: "string \<Rightarrow> string \<Rightarrow> string" where
  "quote safe s = concat (map (quoter safe) s)"

text \<open>\<open>str.replace(old, new)\<close> for a single character \<open>old\<close>.\<close>

definition replace_char :: "char \<Rightarrow> char \<Rightarrow> string \<Rightarrow> string" where
  "replace_char old new s = map (\<lambda>c. if c = old then new else c) s"

text \<open>
  \<open>quote_plus(string, safe='')\<close>: without a space in the string it is
  \<open>quote(string, safe)\<close>; with one, it is \<open>quote(string, safe + ' ')\<close> with every space
  then replaced by a plus sign.
\<close>

definition quote_plus :: "string \<Rightarrow> string" where
  "quote_plus s =
     (if CHR '' '' \<notin> set s then quote '''' s
      else replace_char CHR '' '' CHR ''+'' (quote ('''' @ '' '') s))"

text \<open>\<open>sep.join(parts)\<close>.\<close>

fun join :: "string \<Rightarrow> string list \<Rightarrow> string" where
  "join sep [] = []"
| "join sep [x] = x"
| "join sep (x # y # ys) = x @ sep @ join sep (y # ys)"

text \<open>
  A \<open>dict\<close> is an association list in insertion order, which is the order \<open>items()\<close>
  yields and \<open>urlencode\<close> writes. \<open>d[k] = v\<close> replaces the value of a key that is
  there and appends a new key at the end.
\<close>

type_synonym params = "(string \<times> pyval) list"

fun dict_set :: "('k \<times> 'v) list \<Rightarrow> 'k \<Rightarrow> 'v \<Rightarrow> ('k \<times> 'v) list" where
  "dict_set [] k v = [(k, v)]"
| "dict_set ((k', v') # d) k v =
     (if k' = k then (k, v) # d else (k', v') # dict_set d k v)"

text \<open>
  \<open>urlencode(query)\<close> with its defaults, on a \<open>dict\<close> with \<open>str\<close> keys: each item becomes
  \<open>quote_plus(str(k)) + '=' + quote_plus(str(v))\<close> and the items are joined by \<open>&\<close>.
\<close>

definition urlencode_item :: "string \<times> pyval \<Rightarrow> string" where
  "urlencode_item kv = quote_plus (fst kv) @ ''='' @ quote_plus (py_str (snd kv))"

definition urlencode :: "params \<Rightarrow> string" where
  "urlencode query = join ''&'' (map urlencode_item query)"

section \<open>The paths the operations assemble\<close>

text \<open>
  Each operation builds \<open>params\<close>, then \<open>query\<close>, then the path it hands to \<open>_request\<close>.
  The steps are kept apart here: \<open>f_params\<close> is the \<open>dict\<close>, \<open>f_path\<close> the argument of
  \<open>_request\<close>. \<open>if params\<close> on a \<open>dict\<close> is \<open>params \<noteq> []\<close>.

  \<^verbatim>\<open>
  def list_files(self, include=None, exclude=None, ref=None):
      params = {k: v for k, v in {"include": include, "exclude": exclude,
                                  "ref": ref}.items() if v}
      query = f"?{parse.urlencode(params)}" if params else ""
      return self._request(f"/files{query}")
  \<close>
\<close>

definition list_files_params :: "string option \<Rightarrow> string option \<Rightarrow> string option \<Rightarrow> params" where
  "list_files_params include exclude ref =
     filter (\<lambda>(k, v). truthy v)
       [(''include'', opt_str include), (''exclude'', opt_str exclude), (''ref'', opt_str ref)]"

definition list_files_path :: "string option \<Rightarrow> string option \<Rightarrow> string option \<Rightarrow> string" where
  "list_files_path include exclude ref =
     (let params = list_files_params include exclude ref;
          query = (if params \<noteq> [] then ''?'' @ urlencode params else '''')
      in ''/files'' @ query)"

text \<open>
  \<^verbatim>\<open>
  def list_chunks(self, path=None, lang=None, ref=None, max_tokens=None):
      params = {k: v for k, v in {
          "path": path,
          "lang": lang,
          "ref": ref,
          "maxTokens": max_tokens,
      }.items() if v is not None}
      query = f"?{parse.urlencode(params)}" if params else ""
      return self._request(f"/chunks{query}")
  \<close>
\<close>

definition list_chunks_params ::
  "string option \<Rightarrow> string option \<Rightarrow> string option \<Rightarrow> int option \<Rightarrow> params" where
  "list_chunks_params path lang ref max_tokens =
     filter (\<lambda>(k, v). v \<noteq> PNone)
       [(''path'', opt_str path), (''lang'', opt_str lang), (''ref'', opt_str ref),
        (''maxTokens'', opt_int max_tokens)]"

definition list_chunks_path ::
  "string option \<Rightarrow> string option \<Rightarrow> string option \<Rightarrow> int option \<Rightarrow> string" where
  "list_chunks_path path lang ref max_tokens =
     (let params = list_chunks_params path lang ref max_tokens;
          query = (if params \<noteq> [] then ''?'' @ urlencode params else '''')
      in ''/chunks'' @ query)"

text \<open>
  \<^verbatim>\<open>
  def get_file(self, path, ref=None):
      params = {"path": path}
      if ref:
          params["ref"] = ref
      query = f"?{parse.urlencode(params)}"
      return self._request(f"/file{query}")
  \<close>
\<close>

definition get_file_params :: "string \<Rightarrow> string option \<Rightarrow> params" where
  "get_file_params path ref =
     (let params = [(''path'', PStr path)]
      in if truthy (opt_str ref) then dict_set params ''ref'' (opt_str ref) else params)"

definition get_file_path :: "string \<Rightarrow> string option \<Rightarrow> string" where
  "get_file_path path ref =
     (let query = ''?'' @ urlencode (get_file_params path ref) in ''/file'' @ query)"

text \<open>
  \<^verbatim>\<open>
  def get_chunk(self, chunk_id, ref=None):
      query = f"?ref={parse.quote(ref)}" if ref else ""
      return self._request(f"/chunks/{parse.quote(chunk_id)}{query}")
  \<close>
  \<open>if ref\<close> holds when \<open>ref\<close> is a \<open>str\<close> that is not empty, and \<open>quote\<close> then gets that
  \<open>str\<close>.
\<close>

definition get_chunk_path :: "string \<Rightarrow> string option \<Rightarrow> string" where
  "get_chunk_path chunk_id ref =
     (let query = (case ref of
                     None \<Rightarrow> ''''
                   | Some r \<Rightarrow> if r \<noteq> [] then ''?ref='' @ quote ''/'' r else '''')
      in ''/chunks/'' @ quote ''/'' chunk_id @ query)"

text \<open>
  \<^verbatim>\<open>
  def search(self, query_text, path_glob=None, ref=None):
      params = {"q": query_text}
      if path_glob:
          params["pathGlob"] = path_glob
      if ref:
          params["ref"] = ref
      query = f"?{parse.urlencode(params)}"
      return self._request(f"/search{query}")
  \<close>
\<close>

definition search_params :: "string \<Rightarrow> string option \<Rightarrow> string option \<Rightarrow> params" where
  "search_params query_text path_glob ref =
     (let params = [(''q'', PStr query_text)];
          params = (if truthy (opt_str path_glob)
                    then dict_set params ''pathGlob'' (opt_str path_glob) else params)
      in if truthy (opt_str ref) then dict_set params ''ref'' (opt_str ref) else params)"

definition search_path :: "string \<Rightarrow> string option \<Rightarrow> string option \<Rightarrow> string" where
  "search_path query_text path_glob ref =
     (let query = ''?'' @ urlencode (search_params query_text path_glob ref)
      in ''/search'' @ query)"

text \<open>
  \<^verbatim>\<open>
  def search_symbols(self, query_text=None, ref=None):
      params = {}
      if query_text:
          params["q"] = query_text
      if ref:
          params["ref"] = ref
      query = f"?{parse.urlencode(params)}" if params else ""
      return self._request(f"/search/symbols{query}")
  \<close>
\<close>

definition search_symbols_params :: "string option \<Rightarrow> string option \<Rightarrow> params" where
  "search_symbols_params query_text ref =
     (let params = [];
          params = (if truthy (opt_str query_text)
                    then dict_set params ''q'' (opt_str query_text) else params)
      in if truthy (opt_str ref) then dict_set params ''ref'' (opt_str ref) else params)"

definition search_symbols_path :: "string option \<Rightarrow> string option \<Rightarrow> string" where
  "search_symbols_path query_text ref =
     (let params = search_symbols_params query_text ref;
          query = (if params \<noteq> [] then ''?'' @ urlencode params else '''')
      in ''/search/symbols'' @ query)"

section \<open>The transport and the core request primitive\<close>

text \<open>
  The client object: a dataclass with two fields. \<open>headers\<close> is \<open>None\<close> or a \<open>dict\<close>.
\<close>

record client =
  base_url :: string
  headers :: "(string \<times> string) list option"

subsection \<open>\<open>urllib.request.Request\<close>\<close>

text \<open>
  \<open>str.partition(sep)\<close> for a single character: the text before the first \<open>sep\<close>, and the
  text after it when there is one.
\<close>

fun split_first :: "char \<Rightarrow> string \<Rightarrow> string \<times> string option" where
  "split_first c [] = ([], None)"
| "split_first c (x # xs) =
     (if x = c then ([], Some xs)
      else (case split_first c xs of (a, b) \<Rightarrow> (x # a, b)))"

text \<open>
  \<open>str.strip()\<close> removes the white space at both ends. Python's white space is the code
  points U+0009 to U+000D, U+001C to U+0020, U+0085, U+00A0, U+1680, U+2000 to U+200A,
  U+2028, U+2029, U+202F, U+205F and U+3000; in UTF-8 they take one, two or three bytes.
\<close>

definition ws1 :: "char \<Rightarrow> bool" where
  "ws1 a = (byte_in 0x09 0x0D a \<or> byte_in 0x1C 0x20 a)"

definition ws2 :: "char \<Rightarrow> char \<Rightarrow> bool" where
  "ws2 a b = (of_char a = (0xC2::nat) \<and> (of_char b = (0x85::nat) \<or> of_char b = (0xA0::nat)))"

definition ws3 :: "char \<Rightarrow> char \<Rightarrow> char \<Rightarrow> bool" where
  "ws3 a b c =
     ((of_char a = (0xE1::nat) \<and> of_char b = (0x9A::nat) \<and> of_char c = (0x80::nat))
      \<or> (of_char a = (0xE2::nat) \<and> of_char b = (0x80::nat)
           \<and> (byte_in 0x80 0x8A c \<or> byte_in 0xA8 0xA9 c \<or> of_char c = (0xAF::nat)))
      \<or> (of_char a = (0xE2::nat) \<and> of_char b = (0x81::nat) \<and> of_char c = (0x9F::nat))
      \<or> (of_char a = (0xE3::nat) \<and> of_char b = (0x80::nat) \<and> of_char c = (0x80::nat)))"

fun lstrip :: "string \<Rightarrow> string" where
  "lstrip [] = []"
| "lstrip [a] = (if ws1 a then [] else [a])"
| "lstrip [a, b] = (if ws1 a then lstrip [b] else if ws2 a b then [] else [a, b])"
| "lstrip (a # b # c # s) =
     (if ws1 a then lstrip (b # c # s)
      else if ws2 a b then lstrip (c # s)
      else if ws3 a b c then lstrip s
      else a # b # c # s)"

text \<open>The same from the other end, on the reversed text.\<close>

fun rstrip_rev :: "string \<Rightarrow> string" where
  "rstrip_rev [] = []"
| "rstrip_rev [c] = (if ws1 c then [] else [c])"
| "rstrip_rev [c, b] = (if ws1 c then rstrip_rev [b] else if ws2 b c then [] else [c, b])"
| "rstrip_rev (c # b # a # s) =
     (if ws1 c then rstrip_rev (b # a # s)
      else if ws2 b c then rstrip_rev (a # s)
      else if ws3 a b c then rstrip_rev s
      else c # b # a # s)"

definition strip :: "string \<Rightarrow> string" where
  "strip s = rev (rstrip_rev (rev (lstrip s)))"

text \<open>
  \<^verbatim>\<open>
  def unwrap(url):
      url = str(url).strip()
      if url[:1] == '<' and url[-1:] == '>':
          url = url[1:-1].strip()
      if url[:4] == 'URL:':
          url = url[4:].strip()
      return url
  \<close>
\<close>

definition unwrap :: "string \<Rightarrow> string" where
  "unwrap url0 =
     (let url = strip url0;
          url = (if take 1 url = ''<'' \<and> drop (length url - 1) url = ''>''
                 then strip (butlast (tl url)) else url);
          url = (if take 4 url = ''URL:'' then strip (drop 4 url) else url)
      in url)"

text \<open>
  \<open>_splittag(url)\<close> is \<open>url.rpartition('#')\<close>: the text before the last \<open>#\<close> and the tag
  after it, or the whole text and \<open>None\<close>.
\<close>

definition splittag :: "string \<Rightarrow> string \<times> string option" where
  "splittag url =
     (case split_first CHR ''#'' (rev url) of
        (_, None) \<Rightarrow> (url, None)
      | (tag, Some path) \<Rightarrow> (rev path, Some (rev tag)))"

text \<open>
  \<open>_splittype(url)\<close> finds a type when the regular expression \<open>([^/:]+):(.*)\<close> matches at
  the start: a non-empty run of characters other than \<open>/\<close> and \<open>:\<close>, then a colon.
\<close>

definition has_scheme :: "string \<Rightarrow> bool" where
  "has_scheme url =
     (let scheme = takeWhile (\<lambda>c. c \<noteq> CHR ''/'' \<and> c \<noteq> CHR '':'') url
      in scheme \<noteq> [] \<and> take 1 (drop (length scheme) url) = '':'')"

text \<open>
  Of a \<open>Request\<close> object the model keeps \<open>_full_url\<close> and \<open>fragment\<close>; \<open>full_url\<close> is the
  property that puts a non-empty fragment back.
\<close>

record http_request =
  req_full_url :: string
  req_fragment :: "string option"

definition full_url :: "http_request \<Rightarrow> string" where
  "full_url req =
     (case req_fragment req of
        None \<Rightarrow> req_full_url req
      | Some tag \<Rightarrow> if tag \<noteq> [] then req_full_url req @ ''#'' @ tag else req_full_url req)"

subsection \<open>Responses, effects and exceptions\<close>

text \<open>
  A response object: \<open>status\<close> is an \<open>int\<close> on the response of an HTTP exchange and \<open>None\<close>
  on what the \<open>file\<close>, \<open>ftp\<close> and \<open>data\<close> handlers return; \<open>read()\<close> yields the body
  bytes or raises.
\<close>

record 't http_response =
  status :: "int option"
  resp_headers :: "(string \<times> string) list"
  read :: "'t + string"

text \<open>
  The effects of a call are kept as a trace of the calls made on the library: the
  constructor \<open>Request(url, headers=...)\<close> with its two arguments, \<open>urlopen(req)\<close>, the
  \<open>read()\<close> of the response, and the closing of the response when the \<open>with\<close> block is left.
\<close>

datatype event =
    NewRequest string "(string \<times> string) list"
  | Urlopen http_request
  | Read
  | Close

text \<open>
  The exceptions a call can end with, by the place that raises them: the
  \<open>raise RuntimeError(...)\<close> of \<open>_request\<close> with its message; the \<open>ValueError\<close> of the
  \<open>Request\<close> constructor for a URL without a type (its message quotes the URL held
  here); the \<open>TypeError\<close> of comparing \<open>None\<close> with 400; the \<open>HTTPError\<close> of the opener,
  which is built around the response; any other exception of the constructor, of
  \<open>urlopen\<close> or of \<open>read\<close>; the \<open>decode("utf-8")\<close>; and whatever \<open>json.loads\<close> raises.
\<close>

datatype ('t, 'p) error =
    RuntimeError string
  | ValueError string
  | TypeError
  | HTTPError "'t http_response"
  | TransportError 't
  | UnicodeDecodeError
  | JSONError 'p

text \<open>
  What is beyond the library code written out here is a parameter:
  \<^item> \<open>request_host\<close>: the end of the \<open>Request\<close> constructor parses the full URL for its
    host and may raise (an ill-formed host part); \<open>None\<close> when it does not.
  \<^item> \<open>exchange\<close>: what the opener's handlers obtain for the request, as \<open>urlopen\<close> runs
    them: the last response received, redirects followed, or the exception raised on the
    way. It may depend on everything that happened before.
  \<^item> \<open>json_loads\<close>: \<open>json.loads\<close>, which parses text to a Python value, where \<open>None\<close> is
    JSON's \<open>null\<close>, or raises.
\<close>

record ('t, 'p, 'j) env =
  request_host :: "string \<Rightarrow> 't option"
  exchange :: "event list \<Rightarrow> http_request \<Rightarrow> 't + 't http_response"
  json_loads :: "string \<Rightarrow> 'p + 'j option"

text \<open>
  \<open>Request(url, headers=...)\<close>: the setter of \<open>full_url\<close> unwraps the URL, splits the
  fragment off and raises \<open>ValueError\<close> when no type is found; then the headers are
  stored and the host is computed.
  \<^verbatim>\<open>
  self._full_url = unwrap(url)
  self._full_url, self.fragment = _splittag(self._full_url)
  self._parse()
      self.type, rest = _splittype(self._full_url)
      if self.type is None:
          raise ValueError("unknown url type: %r" % self.full_url)
  \<close>
\<close>

definition new_request :: "('t, 'p, 'j) env \<Rightarrow> string \<Rightarrow> ('t, 'p) error + http_request" where
  "new_request E url =
     (let (u, tag) = splittag (unwrap url);
          req = \<lparr>req_full_url = u, req_fragment = tag\<rparr>
      in if \<not> has_scheme u then Inl (ValueError (full_url req))
         else case request_host E (full_url req) of
                Some t \<Rightarrow> Inl (TransportError t)
              | None \<Rightarrow> Inr req)"

text \<open>
  \<open>urlopen(req)\<close> runs the standard opener, the one the module uses when none was
  installed, and the client installs none. Its last step on the response of an HTTP
  exchange is \<open>HTTPErrorProcessor\<close>: a status outside 200 to 299 that no handler took
  care of ends in \<open>HTTPDefaultErrorHandler\<close>, which raises \<open>HTTPError\<close> with the
  response's code, headers and body.
  \<^verbatim>\<open>
  def http_response(self, request, response):
      code, msg, hdrs = response.code, response.msg, response.info()
      if not (200 <= code < 300):
          response = self.parent.error('http', request, response, code, msg, hdrs)
      return response

  def http_error_default(self, req, fp, code, msg, hdrs):
      raise HTTPError(req.full_url, code, msg, hdrs, fp)
  \<close>
\<close>

definition urlopen ::
  "('t, 'p, 'j) env \<Rightarrow> event list \<Rightarrow> http_request \<Rightarrow> ('t, 'p) error + 't http_response" where
  "urlopen E w req =
     (case exchange E w req of
        Inl t \<Rightarrow> Inl (TransportError t)
      | Inr resp \<Rightarrow>
          (case status resp of
             None \<Rightarrow> Inr resp
           | Some code \<Rightarrow>
               if 200 \<le> code \<and> code < 300 then Inr resp else Inl (HTTPError resp)))"

subsection \<open>\<open>_request\<close>\<close>

text \<open>
  \<open>bytes.decode("utf-8")\<close> in strict mode: the bytes must be well-formed UTF-8 (no
  overlong form, no surrogate, nothing above U+10FFFF); the text is then the same bytes.
\<close>

fun utf8_valid :: "string \<Rightarrow> bool" where
  "utf8_valid [] = True"
| "utf8_valid [c] = ((of_char c :: nat) < 0x80)"
| "utf8_valid [c, c1] =
     (if (of_char c :: nat) < 0x80 then utf8_valid [c1]
      else byte_in 0xC2 0xDF c \<and> byte_in 0x80 0xBF c1)"
| "utf8_valid [c, c1, c2] =
     (if (of_char c :: nat) < 0x80 then utf8_valid [c1, c2]
      else if byte_in 0xC2 0xDF c then byte_in 0x80 0xBF c1 \<and> utf8_valid [c2]
      else byte_in 0xE0 0xEF c
         \<and> byte_in (if of_char c = (0xE0::nat) then 0xA0 else 0x80)
                    (if of_char c = (0xED::nat) then 0x9F else 0xBF) c1
         \<and> byte_in 0x80 0xBF c2)"
| "utf8_valid (c # c1 # c2 # c3 # cs) =
     (if (of_char c :: nat) < 0x80 then utf8_valid (c1 # c2 # c3 # cs)
      else if byte_in 0xC2 0xDF c then byte_in 0x80 0xBF c1 \<and> utf8_valid (c2 # c3 # cs)
      else if byte_in 0xE0 0xEF c then
           byte_in (if of_char c = (0xE0::nat) then 0xA0 else 0x80)
                   (if of_char c = (0xED::nat) then 0x9F else 0xBF) c1
         \<and> byte_in 0x80 0xBF c2 \<and> utf8_valid (c3 # cs)
      else byte_in 0xF0 0xF4 c
         \<and> byte_in (if of_char c = (0xF0::nat) then 0x90 else 0x80)
                    (if of_char c = (0xF4::nat) then 0x8F else 0xBF) c1
         \<and> byte_in 0x80 0xBF c2 \<and> byte_in 0x80 0xBF c3 \<and> utf8_valid cs)"

definition decode_utf8 :: "string \<Rightarrow> ('t, 'p) error + string" where
  "decode_utf8 bs = (if utf8_valid bs then Inr bs else Inl UnicodeDecodeError)"

text \<open>\<open>self.headers or {}\<close>: \<open>None\<close> and the empty \<open>dict\<close> both give the empty \<open>dict\<close>.\<close>

definition headers_or_empty :: "(string \<times> string) list option \<Rightarrow> (string \<times> string) list" where
  "headers_or_empty h = (case h of None \<Rightarrow> [] | Some d \<Rightarrow> if d \<noteq> [] then d else [])"

text \<open>
  \<^verbatim>\<open>
  def _request(self, path):
      url = f"{self.base_url}{path}"
      req = request.Request(url, headers=self.headers or {})
      with request.urlopen(req) as resp:
          if resp.status >= 400:
              raise RuntimeError(f"Request failed: {resp.status}")
          data = resp.read().decode("utf-8")
          if not data:
              return None
          return json.loads(data)
  \<close>
  First the body of the \<open>with\<close> block: the value returned or the exception raised, and
  the events it causes on the response.
\<close>

definition with_resp ::
  "('t, 'p, 'j) env \<Rightarrow> 't http_response \<Rightarrow> (('t, 'p) error + 'j option) \<times> event list" where
  "with_resp E resp =
     (case status resp of
        None \<Rightarrow> (Inl TypeError, [])
      | Some code \<Rightarrow>
          if code \<ge> 400
          then (Inl (RuntimeError (''Request failed: '' @ str_int code)), [])
          else case read resp of
                 Inl t \<Rightarrow> (Inl (TransportError t), [Read])
               | Inr bytes \<Rightarrow>
                   (case decode_utf8 bytes of
                      Inl e \<Rightarrow> (Inl e, [Read])
                    | Inr data \<Rightarrow>
                        if data = [] then (Inr None, [Read])
                        else (case json_loads E data of
                                Inl p \<Rightarrow> (Inl (JSONError p), [Read])
                              | Inr v \<Rightarrow> (Inr v, [Read]))))"

text \<open>
  \<open>_request(self, path)\<close>, from the client and the trace so far to the outcome, the
  client afterwards and the trace afterwards. It is named \<open>request\<close> here, since a
  name cannot begin with an underscore. The method assigns to no field of \<open>self\<close>, so
  the client afterwards is the one it was called on.
\<close>

type_synonym ('t, 'p, 'j) outcome = "(('t, 'p) error + 'j option) \<times> client \<times> event list"

definition request ::
  "('t, 'p, 'j) env \<Rightarrow> string \<Rightarrow> client \<Rightarrow> event list \<Rightarrow> ('t, 'p, 'j) outcome" where
  "request E path self w =
     (let url = base_url self @ path;
          hs = headers_or_empty (headers self);
          w1 = w @ [NewRequest url hs]
      in case new_request E url of
           Inl e \<Rightarrow> (Inl e, self, w1)
         | Inr req \<Rightarrow>
             (case urlopen E w1 req of
                Inl e \<Rightarrow> (Inl e, self, w1 @ [Urlopen req])
              | Inr resp \<Rightarrow>
                  (let (r, evs) = with_resp E resp
                   in (r, self, w1 @ [Urlopen req] @ evs @ [Close]))))"

section \<open>The six operations\<close>

definition list_files ::
  "('t, 'p, 'j) env \<Rightarrow> string option \<Rightarrow> string option \<Rightarrow> string option
     \<Rightarrow> client \<Rightarrow> event list \<Rightarrow> ('t, 'p, 'j) outcome" where
  "list_files E include exclude ref = request E (list_files_path include exclude ref)"

definition list_chunks ::
  "('t, 'p, 'j) env \<Rightarrow> string option \<Rightarrow> string option \<Rightarrow> string option \<Rightarrow> int option
     \<Rightarrow> client \<Rightarrow> event list \<Rightarrow> ('t, 'p, 'j) outcome" where
  "list_chunks E path lang ref max_tokens =
     request E (list_chunks_path path lang ref max_tokens)"

definition get_file ::
  "('t, 'p, 'j) env \<Rightarrow> string \<Rightarrow> string option
     \<Rightarrow> client \<Rightarrow> event list \<Rightarrow> ('t, 'p, 'j) outcome" where
  "get_file E path ref = request E (get_file_path path ref)"

definition get_chunk ::
  "('t, 'p, 'j) env \<Rightarrow> string \<Rightarrow> string option
     \<Rightarrow> client \<Rightarrow> event list \<Rightarrow> ('t, 'p, 'j) outcome" where
  "get_chunk E chunk_id ref = request E (get_chunk_path chunk_id ref)"

definition search ::
  "('t, 'p, 'j) env \<Rightarrow> string \<Rightarrow> string option \<Rightarrow> string option
     \<Rightarrow> client \<Rightarrow> event list \<Rightarrow> ('t, 'p, 'j) outcome" where
  "search E query_text path_glob ref = request E (search_path query_text path_glob ref)"

definition search_symbols ::
  "('t, 'p, 'j) env \<Rightarrow> string option \<Rightarrow> string option
     \<Rightarrow> client \<Rightarrow> event list \<Rightarrow> ('t, 'p, 'j) outcome" where
  "search_symbols E query_text ref = request E (search_symbols_path query_text ref)"

text \<open>
  A call of any one operation with its arguments, so that a statement can range over
  all of them.
\<close>

datatype call =
    ListFiles "string option" "string option" "string option"
  | ListChunks "string option" "string option" "string option" "int option"
  | GetFile string "string option"
  | GetChunk string "string option"
  | Search string "string option" "string option"
  | SearchSymbols "string option" "string option"

fun call_path :: "call \<Rightarrow> string" where
  "call_path (ListFiles include exclude ref) = list_files_path include exclude ref"
| "call_path (ListChunks path lang ref max_tokens) = list_chunks_path path lang ref max_tokens"
| "call_path (GetFile path ref) = get_file_path path ref"
| "call_path (GetChunk chunk_id ref) = get_chunk_path chunk_id ref"
| "call_path (Search query_text path_glob ref) = search_path query_text path_glob ref"
| "call_path (SearchSymbols query_text ref) = search_symbols_path query_text ref"

fun invoke ::
  "('t, 'p, 'j) env \<Rightarrow> call \<Rightarrow> client \<Rightarrow> event list \<Rightarrow> ('t, 'p, 'j) outcome" where
  "invoke E (ListFiles include exclude ref) = list_files E include exclude ref"
| "invoke E (ListChunks path lang ref max_tokens) = list_chunks E path lang ref max_tokens"
| "invoke E (GetFile path ref) = get_file E path ref"
| "invoke E (GetChunk chunk_id ref) = get_chunk E chunk_id ref"
| "invoke E (Search query_text path_glob ref) = search E query_text path_glob ref"
| "invoke E (SearchSymbols query_text ref) = search_symbols E query_text ref"

section \<open>Reading a path back\<close>

text \<open>
  To say what a constructed path holds, it is read the way a server reads it: the query
  is what follows the first \<open>?\<close>, its entries are separated by \<open>&\<close>, and an entry is a
  name, and a value when there is a \<open>=\<close>. Nothing is decoded.
\<close>

fun split_on :: "char \<Rightarrow> string \<Rightarrow> string list" where
  "split_on c [] = [[]]"
| "split_on c (x # xs) =
     (if x = c then [] # split_on c xs
      else (case split_on c xs of [] \<Rightarrow> [[x]] | p # ps \<Rightarrow> (x # p) # ps))"

definition query_entries :: "string \<Rightarrow> (string \<times> string option) list" where
  "query_entries path =
     (case split_first CHR ''?'' path of
        (_, None) \<Rightarrow> []
      | (_, Some q) \<Rightarrow> map (split_first CHR ''='') (split_on CHR ''&'' q))"

text \<open>
  The optional arguments of a call that were given (not \<open>None\<close>), with their names, and
  those among them that are not the empty string.
\<close>

fun given :: "(string \<times> string option) list \<Rightarrow> (string \<times> string) list" where
  "given [] = []"
| "given ((k, None) # xs) = given xs"
| "given ((k, Some v) # xs) = (k, v) # given xs"

definition supplied :: "(string \<times> string option) list \<Rightarrow> (string \<times> string) list" where
  "supplied xs = filter (\<lambda>(k, v). v \<noteq> []) (given xs)"

text \<open>
  The requests handed to \<open>urlopen\<close> in a trace, and the argument pairs handed to the
  \<open>Request\<close> constructor, each in order.
\<close>

fun issued :: "event list \<Rightarrow> http_request list" where
  "issued [] = []"
| "issued (Urlopen req # evs) = req # issued evs"
| "issued (NewRequest url hs # evs) = issued evs"
| "issued (Read # evs) = issued evs"
| "issued (Close # evs) = issued evs"

fun constructed :: "event list \<Rightarrow> (string \<times> (string \<times> string) list) list" where
  "constructed [] = []"
| "constructed (NewRequest url hs # evs) = (url, hs) # constructed evs"
| "constructed (Urlopen req # evs) = constructed evs"
| "constructed (Read # evs) = constructed evs"
| "constructed (Close # evs) = constructed evs"

text \<open>
  An environment for concrete runs: the host of every URL is accepted, every exchange
  ends with the given response, and \<open>json.loads\<close> is the given function.
\<close>

definition fixed_env ::
  "unit http_response \<Rightarrow> (string \<Rightarrow> string + 'j option) \<Rightarrow> (unit, string, 'j) env" where
  "fixed_env resp loads =
     \<lparr>request_host = (\<lambda>u. None), exchange = (\<lambda>w req. Inr resp), json_loads = loads\<rparr>"

text \<open>The three characters that structure a path with a query.\<close>

definition reserved :: "char \<Rightarrow> bool" where
  "reserved c = (c = CHR ''?'' \<or> c = CHR ''&'' \<or> c = CHR ''='')"

section \<open>Splitting and joining\<close>

lemma split_first_absent: "c \<notin> set a \<Longrightarrow> split_first c a = (a, None)"
  by (induction a) auto

lemma split_first_at: "c \<notin> set a \<Longrightarrow> split_first c (a @ c # b) = (a, Some b)"
  by (induction a) auto

lemma split_on_absent: "c \<notin> set a \<Longrightarrow> split_on c a = [a]"
  by (induction a) auto

lemma split_on_at: "c \<notin> set a \<Longrightarrow> split_on c (a @ c # b) = a # split_on c b"
  by (induction a) auto

lemma split_on_join:
  "xs \<noteq> [] \<Longrightarrow> (\<And>x. x \<in> set xs \<Longrightarrow> c \<notin> set x) \<Longrightarrow> split_on c (join [c] xs) = xs"
proof (induction "[c]" xs rule: join.induct)
  case 1
  then show ?case by simp
next
  case (2 x)
  then show ?case by (simp add: split_on_absent)
next
  case (3 x y ys)
  then show ?case by (simp add: split_on_at)
qed

section \<open>What percent-encoding can produce\<close>

lemma hex_digit_in: "hex_digit n \<in> set ''0123456789ABCDEF''"
  unfolding hex_digit_def by (rule nth_mem) simp

lemma quoter_not_reserved:
  "reserved c \<Longrightarrow> c \<notin> set safe \<Longrightarrow> c \<notin> set (quoter safe b)"
proof
  assume r: "reserved c" and s: "c \<notin> set safe" and m: "c \<in> set (quoter safe b)"
  from r have a: "c \<notin> set always_safe"
    by (auto simp: reserved_def always_safe_def)
  from r have h: "c \<notin> set ''0123456789ABCDEF''" and p: "c \<noteq> CHR ''%''"
    by (auto simp: reserved_def)
  from s have s': "c \<notin> set (ascii_only safe)"
    by (simp add: ascii_only_def)
  show False
  proof (cases "b \<in> set (always_safe @ ascii_only safe)")
    case True
    with m a s' show False by (auto simp: quoter_def)
  next
    case False
    with m have "c \<in> set (percent_byte b)" by (simp add: quoter_def)
    with p have "c = hex_digit (of_char b div 16) \<or> c = hex_digit (of_char b mod 16)"
      by (auto simp: percent_byte_def)
    with h hex_digit_in show False by metis
  qed
qed

lemma quote_not_reserved:
  "reserved c \<Longrightarrow> c \<notin> set safe \<Longrightarrow> c \<notin> set (quote safe s)"
  unfolding quote_def using quoter_not_reserved by auto

lemma quote_plus_not_reserved: "reserved c \<Longrightarrow> c \<notin> set (quote_plus s)"
proof -
  assume r: "reserved c"
  then have sp: "c \<notin> set ([] @ '' '')" and pl: "c \<noteq> CHR ''+''"
    by (auto simp: reserved_def)
  have "c \<notin> set (quote [] s)"
    using r by (rule quote_not_reserved) simp
  moreover have "c \<notin> set (quote ([] @ '' '') s)"
    using r sp by (rule quote_not_reserved)
  ultimately show ?thesis using pl
    by (auto simp: quote_plus_def replace_char_def split: if_splits)
qed

section \<open>Reading back what \<open>urlencode\<close> wrote\<close>

lemma split_item:
  "split_first CHR ''='' (urlencode_item kv) =
     (quote_plus (fst kv), Some (quote_plus (py_str (snd kv))))"
  by (simp add: urlencode_item_def split_first_at quote_plus_not_reserved reserved_def)

lemma item_no_amp: "CHR ''&'' \<notin> set (urlencode_item kv)"
  by (simp add: urlencode_item_def quote_plus_not_reserved reserved_def)

lemma split_urlencode:
  assumes "ps \<noteq> []"
  shows "split_on CHR ''&'' (urlencode ps) = map urlencode_item ps"
  unfolding urlencode_def using assms
  by (intro split_on_join) (auto simp: item_no_amp)

lemma entries_urlencode:
  assumes "ps \<noteq> []" and "CHR ''?'' \<notin> set p"
  shows "query_entries (p @ ''?'' @ urlencode ps) =
           map (\<lambda>(k, v). (quote_plus k, Some (quote_plus (py_str v)))) ps"
proof -
  have "split_first CHR ''?'' (p @ CHR ''?'' # urlencode ps) = (p, Some (urlencode ps))"
    using assms(2) by (rule split_first_at)
  then have "query_entries (p @ ''?'' @ urlencode ps) =
               map (split_first CHR ''='') (map urlencode_item ps)"
    by (simp add: query_entries_def split_urlencode [OF assms(1)])
  also have "\<dots> = map (\<lambda>(k, v). (quote_plus k, Some (quote_plus (py_str v)))) ps"
    by (simp add: split_item case_prod_beta)
  finally show ?thesis .
qed

lemma entries_no_query: "CHR ''?'' \<notin> set p \<Longrightarrow> query_entries p = []"
  by (simp add: query_entries_def split_first_absent)

lemma entries_of_params:
  assumes "CHR ''?'' \<notin> set p"
  shows "query_entries (p @ (if ps \<noteq> [] then ''?'' @ urlencode ps else [])) =
           map (\<lambda>(k, v). (quote_plus k, Some (quote_plus (py_str v)))) ps"
proof (cases "ps = []")
  case True
  then show ?thesis using assms by (simp add: entries_no_query)
next
  case False
  then show ?thesis using entries_urlencode [OF False assms] by simp
qed

text \<open>The parameter names are written unchanged.\<close>

lemma key_include: "quote_plus ''include'' = ''include''" by code_simp
lemma key_exclude: "quote_plus ''exclude'' = ''exclude''" by code_simp
lemma key_ref: "quote_plus ''ref'' = ''ref''" by code_simp
lemma key_path: "quote_plus ''path'' = ''path''" by code_simp
lemma key_lang: "quote_plus ''lang'' = ''lang''" by code_simp
lemma key_maxTokens: "quote_plus ''maxTokens'' = ''maxTokens''" by code_simp
lemma key_q: "quote_plus ''q'' = ''q''" by code_simp
lemma key_pathGlob: "quote_plus ''pathGlob'' = ''pathGlob''" by code_simp

lemmas keys =
  key_include key_exclude key_ref key_path key_lang key_maxTokens key_q key_pathGlob

section \<open>The entries of each operation's path\<close>

lemma list_files_params_eq:
  "list_files_params include exclude ref =
     map (\<lambda>(k, v). (k, PStr v))
       (supplied [(''include'', include), (''exclude'', exclude), (''ref'', ref)])"
  by (cases "include"; cases exclude; cases ref)
     (simp_all add: list_files_params_def supplied_def opt_str_def)

lemma list_files_entries:
  "query_entries (list_files_path include exclude ref) =
     map (\<lambda>(k, v). (k, Some (quote_plus v)))
       (supplied [(''include'', include), (''exclude'', exclude), (''ref'', ref)])"
proof -
  have "query_entries (list_files_path include exclude ref) =
          map (\<lambda>(k, v). (quote_plus k, Some (quote_plus (py_str v))))
            (list_files_params include exclude ref)"
    unfolding list_files_path_def Let_def by (rule entries_of_params) simp
  also have "\<dots> = map (\<lambda>(k, v). (k, Some (quote_plus v)))
       (supplied [(''include'', include), (''exclude'', exclude), (''ref'', ref)])"
    unfolding list_files_params_eq
    by (cases "include"; cases exclude; cases ref) (simp_all add: supplied_def keys)
  finally show ?thesis .
qed

lemma list_chunks_entries:
  "query_entries (list_chunks_path path lang ref max_tokens) =
     map (\<lambda>(k, v). (k, Some (quote_plus v)))
       (given [(''path'', path), (''lang'', lang), (''ref'', ref),
               (''maxTokens'', map_option str_int max_tokens)])"
proof -
  have "query_entries (list_chunks_path path lang ref max_tokens) =
          map (\<lambda>(k, v). (quote_plus k, Some (quote_plus (py_str v))))
            (list_chunks_params path lang ref max_tokens)"
    unfolding list_chunks_path_def Let_def by (rule entries_of_params) simp
  also have "\<dots> = map (\<lambda>(k, v). (k, Some (quote_plus v)))
       (given [(''path'', path), (''lang'', lang), (''ref'', ref),
               (''maxTokens'', map_option str_int max_tokens)])"
    by (cases path; cases lang; cases ref; cases max_tokens)
       (simp_all add: list_chunks_params_def opt_str_def opt_int_def keys)
  finally show ?thesis .
qed

lemma get_file_entries:
  "query_entries (get_file_path path ref) =
     (''path'', Some (quote_plus path)) #
     map (\<lambda>(k, v). (k, Some (quote_plus v))) (supplied [(''ref'', ref)])"
proof -
  have ne: "get_file_params path ref \<noteq> []"
    by (simp add: get_file_params_def Let_def)
  have "query_entries (get_file_path path ref) =
          map (\<lambda>(k, v). (quote_plus k, Some (quote_plus (py_str v))))
            (get_file_params path ref)"
    using entries_urlencode [OF ne, of "''/file''"] by (simp add: get_file_path_def)
  also have "\<dots> = (''path'', Some (quote_plus path)) #
     map (\<lambda>(k, v). (k, Some (quote_plus v))) (supplied [(''ref'', ref)])"
    by (cases ref) (simp_all add: get_file_params_def Let_def opt_str_def supplied_def keys)
  finally show ?thesis .
qed

lemma search_entries:
  "query_entries (search_path query_text path_glob ref) =
     (''q'', Some (quote_plus query_text)) #
     map (\<lambda>(k, v). (k, Some (quote_plus v)))
       (supplied [(''pathGlob'', path_glob), (''ref'', ref)])"
proof -
  have ne: "search_params query_text path_glob ref \<noteq> []"
    by (simp add: search_params_def Let_def)
  have "query_entries (search_path query_text path_glob ref) =
          map (\<lambda>(k, v). (quote_plus k, Some (quote_plus (py_str v))))
            (search_params query_text path_glob ref)"
    using entries_urlencode [OF ne, of "''/search''"] by (simp add: search_path_def)
  also have "\<dots> = (''q'', Some (quote_plus query_text)) #
     map (\<lambda>(k, v). (k, Some (quote_plus v)))
       (supplied [(''pathGlob'', path_glob), (''ref'', ref)])"
    by (cases path_glob; cases ref)
       (simp_all add: search_params_def Let_def opt_str_def supplied_def keys)
  finally show ?thesis .
qed

lemma search_symbols_entries:
  "query_entries (search_symbols_path query_text ref) =
     map (\<lambda>(k, v). (k, Some (quote_plus v)))
       (supplied [(''q'', query_text), (''ref'', ref)])"
proof -
  have "query_entries (search_symbols_path query_text ref) =
          map (\<lambda>(k, v). (quote_plus k, Some (quote_plus (py_str v))))
            (search_symbols_params query_text ref)"
    unfolding search_symbols_path_def Let_def by (rule entries_of_params) simp
  also have "\<dots> = map (\<lambda>(k, v). (k, Some (quote_plus v)))
       (supplied [(''q'', query_text), (''ref'', ref)])"
    by (cases query_text; cases ref)
       (simp_all add: search_symbols_params_def Let_def opt_str_def supplied_def keys)
  finally show ?thesis .
qed

lemma get_chunk_entries:
  "query_entries (get_chunk_path chunk_id ref) =
     map (\<lambda>(k, v). (k, Some (quote ''/'' v))) (supplied [(''ref'', ref)])"
proof -
  have q: "CHR ''?'' \<notin> set (''/chunks/'' @ quote ''/'' chunk_id)"
    using quote_not_reserved [of "CHR ''?''" "''/''" chunk_id] by (simp add: reserved_def)
  show ?thesis
  proof (cases "\<exists>r. ref = Some r \<and> r \<noteq> []")
    case False
    then have "supplied [(''ref'', ref)] = []"
      by (cases ref) (simp_all add: supplied_def)
    moreover from False have "get_chunk_path chunk_id ref = ''/chunks/'' @ quote ''/'' chunk_id"
      by (cases ref) (simp_all add: get_chunk_path_def)
    ultimately show ?thesis using q by (simp add: entries_no_query)
  next
    case True
    then obtain r where r: "ref = Some r" "r \<noteq> []"
      by blast
    have amp: "CHR ''&'' \<notin> set (''ref='' @ quote ''/'' r)"
      using quote_not_reserved [of "CHR ''&''" "''/''" r] by (simp add: reserved_def)
    have "get_chunk_path chunk_id ref =
            (''/chunks/'' @ quote ''/'' chunk_id) @ CHR ''?'' # (''ref='' @ quote ''/'' r)"
      using r by (simp add: get_chunk_path_def)
    then have "query_entries (get_chunk_path chunk_id ref) =
                 map (split_first CHR ''='') (split_on CHR ''&'' (''ref='' @ quote ''/'' r))"
      unfolding query_entries_def using split_first_at [OF q] by simp
    also have "\<dots> = [(''ref'', Some (quote ''/'' r))]"
      unfolding split_on_absent [OF amp] by simp
    finally show ?thesis using r by (simp add: supplied_def)
  qed
qed

section \<open>Text that encoding leaves as it is\<close>

lemma quote_safe_id: "set s \<subseteq> set always_safe \<Longrightarrow> quote safe s = s"
  by (induction s) (simp_all add: quote_def quoter_def)

lemma quote_plus_safe_id:
  assumes "set s \<subseteq> set always_safe"
  shows "quote_plus s = s"
proof -
  have "CHR '' '' \<notin> set always_safe" by (simp add: always_safe_def)
  with assms have "CHR '' '' \<notin> set s" by blast
  then show ?thesis by (simp add: quote_plus_def quote_safe_id [OF assms])
qed

lemma digit_safe: "digit_char n \<in> set always_safe"
proof -
  have "digit_char n \<in> set ''0123456789''"
    unfolding digit_char_def by (rule nth_mem) simp
  then show ?thesis by (auto simp: always_safe_def)
qed

lemma str_nat_safe: "set (str_nat n) \<subseteq> set always_safe"
proof (induction n rule: str_nat.induct)
  case (1 n)
  show ?case
  proof (cases "n < 10")
    case True
    then show ?thesis by (subst str_nat.simps) (simp add: digit_safe)
  next
    case False
    with "1.IH" show ?thesis by (subst str_nat.simps) (simp add: digit_safe)
  qed
qed

lemma str_int_safe: "set (str_int i) \<subseteq> set always_safe"
proof -
  have "CHR ''-'' \<in> set always_safe" by (simp add: always_safe_def)
  then show ?thesis using str_nat_safe by (simp add: str_int_def)
qed

lemma quote_plus_str_int: "quote_plus (str_int i) = str_int i"
  using str_int_safe by (rule quote_plus_safe_id)

lemma str_int_0: "str_int 0 = ''0''" by code_simp

section \<open>The slash in a path segment\<close>

lemma quote_append: "quote safe (a @ b) = quote safe a @ quote safe b"
  by (simp add: quote_def)

lemma quote_slash: "quote ''/'' (CHR ''/'' # ys) = CHR ''/'' # quote ''/'' ys"
  by (simp add: quote_def quoter_def ascii_only_def)

lemma hex_digit_not_slash: "hex_digit n \<noteq> CHR ''/''"
  using hex_digit_in [of n] by auto

lemma count_slash_quoter:
  "count_list (quoter ''/'' c) CHR ''/'' = (if c = CHR ''/'' then 1 else 0)"
proof (cases "c = CHR ''/''")
  case True
  then show ?thesis by (simp add: quoter_def ascii_only_def)
next
  case False
  then show ?thesis
    using hex_digit_not_slash by (simp add: quoter_def percent_byte_def)
qed

lemma count_slash_quote: "count_list (quote ''/'' s) CHR ''/'' = count_list s CHR ''/''"
proof (induction s)
  case Nil
  then show ?case by (simp add: quote_def)
next
  case (Cons c s)
  have "quote ''/'' (c # s) = quoter ''/'' c @ quote ''/'' s"
    by (simp add: quote_def)
  then show ?case using Cons by (simp add: count_slash_quoter)
qed

section \<open>What a call of \<open>_request\<close> does\<close>

lemma issued_append: "issued (a @ b) = issued a @ issued b"
  by (induction a rule: issued.induct) simp_all

lemma constructed_append: "constructed (a @ b) = constructed a @ constructed b"
  by (induction a rule: constructed.induct) simp_all

lemma with_resp_events:
  "issued (snd (with_resp E resp)) = [] \<and> constructed (snd (with_resp E resp)) = []"
  by (simp add: with_resp_def split: sum.splits option.splits)

lemma request_client: "fst (snd (request E path self w)) = self"
  by (simp add: request_def Let_def split: sum.splits prod.splits)

lemma request_constructed:
  "constructed (snd (snd (request E path self w))) =
     constructed w @ [(base_url self @ path, headers_or_empty (headers self))]"
proof -
  have "constructed evs = []" if "with_resp E resp = (r, evs)" for resp r evs
    using with_resp_events [of E resp] that by simp
  then show ?thesis
    by (simp add: request_def Let_def constructed_append split: sum.splits prod.splits)
qed

lemma request_issued:
  "issued (snd (snd (request E path self w))) =
     issued w @ (case new_request E (base_url self @ path) of Inl e \<Rightarrow> [] | Inr req \<Rightarrow> [req])"
proof -
  have "issued evs = []" if "with_resp E resp = (r, evs)" for resp r evs
    using with_resp_events [of E resp] that by simp
  then show ?thesis
    by (simp add: request_def Let_def issued_append split: sum.splits prod.splits)
qed

lemma invoke_request: "invoke E call = request E (call_path call)"
  by (cases call)
     (simp_all add: list_files_def list_chunks_def get_file_def get_chunk_def search_def
        search_symbols_def)

lemma urlopen_Inr:
  "urlopen E w req = Inr resp \<Longrightarrow>
     status resp = None \<or> (\<exists>code. status resp = Some code \<and> 200 \<le> code \<and> code < 300)"
  by (auto simp: urlopen_def split: sum.splits option.splits if_splits)

lemma with_resp_no_runtime:
  "status resp = None \<or> (\<exists>code. status resp = Some code \<and> code < 400) \<Longrightarrow>
     fst (with_resp E resp) \<noteq> Inl (RuntimeError m)"
  by (auto simp: with_resp_def decode_utf8_def split: sum.splits if_splits option.splits)

lemma new_request_no_runtime: "new_request E url \<noteq> Inl (RuntimeError m)"
  by (simp add: new_request_def Let_def split: prod.splits option.splits)

lemma urlopen_no_runtime: "urlopen E w req \<noteq> Inl (RuntimeError m)"
  by (simp add: urlopen_def split: sum.splits option.splits)

lemma request_no_runtime: "fst (request E path self w) \<noteq> Inl (RuntimeError m)"
proof (cases "new_request E (base_url self @ path)")
  case (Inl e)
  with new_request_no_runtime [of E "base_url self @ path" m] show ?thesis
    by (auto simp: request_def Let_def)
next
  case req: (Inr req)
  let ?w1 = "w @ [NewRequest (base_url self @ path) (headers_or_empty (headers self))]"
  show ?thesis
  proof (cases "urlopen E ?w1 req")
    case (Inl e)
    with urlopen_no_runtime [of E ?w1 req m] req show ?thesis
      by (auto simp: request_def Let_def)
  next
    case (Inr resp)
    from urlopen_Inr [OF Inr]
    have "status resp = None \<or> (\<exists>code. status resp = Some code \<and> code < 400)"
      by auto
    from with_resp_no_runtime [OF this, of E m] req Inr show ?thesis
      by (auto simp: request_def Let_def split: prod.splits)
  qed
qed

lemma request_http_error:
  assumes "new_request E (base_url self @ path) = Inr req"
    and "exchange E (w @ [NewRequest (base_url self @ path) (headers_or_empty (headers self))]) req
           = Inr resp"
    and "status resp = Some code" and "\<not> (200 \<le> code \<and> code < 300)"
  shows "request E path self w =
           (Inl (HTTPError resp), self,
            w @ [NewRequest (base_url self @ path) (headers_or_empty (headers self)),
                 Urlopen req])"
  using assms by (auto simp: request_def urlopen_def Let_def)

section \<open>The response\<close>


lemma new_request_host_files:
  "new_request (fixed_env resp loads) ''http://host/files'' =
     Inr \<lparr>req_full_url = ''http://host/files'', req_fragment = None\<rparr>"
  by code_simp

section \<open>What the \<open>Request\<close> constructor keeps\<close>

lemma splittag_no_tag: "CHR ''#'' \<notin> set url \<Longrightarrow> splittag url = (url, None)"
  by (simp add: splittag_def split_first_absent)

lemma new_request_plain:
  assumes "unwrap url = url" and "CHR ''#'' \<notin> set url" and "has_scheme url"
    and "request_host E url = None"
  shows "new_request E url = Inr \<lparr>req_full_url = url, req_fragment = None\<rparr>"
  using assms by (simp add: new_request_def splittag_no_tag full_url_def)

lemma new_request_no_scheme:
  "\<not> has_scheme (fst (splittag (unwrap url))) \<Longrightarrow> \<exists>u. new_request E url = Inl (ValueError u)"
  by (auto simp: new_request_def Let_def split: prod.splits)

lemma new_request_Inr:
  "new_request E url = Inr req \<Longrightarrow> req_full_url req = fst (splittag (unwrap url))"
  by (auto simp: new_request_def Let_def split: prod.splits if_splits option.splits)

section \<open>The claims\<close>

text \<open>
  C1, as the code has it. Read back, the query of each path holds exactly one entry for
  every optional argument that counts as given, in the order of the source, its value
  encoded, and no entry for any other optional argument. For \<open>list_files\<close>,
  \<open>get_file\<close>, \<open>get_chunk\<close>, \<open>search\<close> and \<open>search_symbols\<close> an argument counts when it is
  not \<open>None\<close> and not the empty string (\<^const>\<open>supplied\<close>). For \<open>list_chunks\<close> it counts
  as soon as it is not \<open>None\<close> (\<^const>\<open>given\<close>): the empty string and the number zero are
  written too. The values go through \<open>quote_plus\<close>, in \<open>get_chunk\<close> through \<open>quote\<close>.
\<close>

theorem optional_params_in_query:
  "query_entries (list_files_path include exclude ref) =
     map (\<lambda>(k, v). (k, Some (quote_plus v)))
       (supplied [(''include'', include), (''exclude'', exclude), (''ref'', ref)])
   \<and> query_entries (get_file_path path ref) =
       (''path'', Some (quote_plus path)) #
       map (\<lambda>(k, v). (k, Some (quote_plus v))) (supplied [(''ref'', ref)])
   \<and> query_entries (get_chunk_path chunk_id ref) =
       map (\<lambda>(k, v). (k, Some (quote ''/'' v))) (supplied [(''ref'', ref)])
   \<and> query_entries (search_path query_text path_glob ref) =
       (''q'', Some (quote_plus query_text)) #
       map (\<lambda>(k, v). (k, Some (quote_plus v)))
         (supplied [(''pathGlob'', path_glob), (''ref'', ref)])
   \<and> query_entries (search_symbols_path symbol_text ref) =
       map (\<lambda>(k, v). (k, Some (quote_plus v)))
         (supplied [(''q'', symbol_text), (''ref'', ref)])
   \<and> query_entries (list_chunks_path chunk_path lang ref max_tokens) =
       map (\<lambda>(k, v). (k, Some (quote_plus v)))
         (given [(''path'', chunk_path), (''lang'', lang), (''ref'', ref),
                 (''maxTokens'', map_option str_int max_tokens)])"
  by (simp only: list_files_entries get_file_entries get_chunk_entries search_entries
        search_symbols_entries list_chunks_entries simp_thms)

text \<open>
  C1 as stated fails: \<open>list_chunks(lang="", max_tokens=0)\<close> writes the empty string and
  the zero into the query.
\<close>

theorem list_chunks_falsy_counterexample:
  "list_chunks_path None (Some '''') None (Some 0) = ''/chunks?lang=&maxTokens=0''
   \<and> query_entries (list_chunks_path None (Some '''') None (Some 0)) =
       [(''lang'', Some ''''), (''maxTokens'', Some ''0'')]"
  by code_simp

text \<open>
  C2, as the code has it. \<open>list_chunks\<close> writes \<open>maxTokens\<close> with the decimal text of
  \<open>max_tokens\<close> for every integer, zero included, where it gives \<open>maxTokens=0\<close>; the entry
  is left out when \<open>max_tokens\<close> is \<open>None\<close>.
\<close>

theorem list_chunks_max_tokens:
  "map_of (query_entries (list_chunks_path path lang ref (Some n))) ''maxTokens''
     = Some (Some (str_int n))
   \<and> map_of (query_entries (list_chunks_path path lang ref (Some 0))) ''maxTokens''
     = Some (Some ''0'')
   \<and> map_of (query_entries (list_chunks_path path lang ref None)) ''maxTokens'' = None"
proof -
  have some: "map_of (query_entries (list_chunks_path path lang ref (Some m))) ''maxTokens''
     = Some (Some (str_int m))" for m
    unfolding list_chunks_entries
    by (cases path; cases lang; cases ref) (simp_all add: quote_plus_str_int)
  have none: "map_of (query_entries (list_chunks_path path lang ref None)) ''maxTokens'' = None"
    unfolding list_chunks_entries
    by (cases path; cases lang; cases ref) simp_all
  from some [of n] some [of 0] none show ?thesis by (simp add: str_int_0)
qed

text \<open>C2 as stated fails: \<open>list_chunks(max_tokens=0)\<close> requests \<open>/chunks?maxTokens=0\<close>.\<close>

theorem list_chunks_zero_counterexample:
  "list_chunks_path None None None (Some 0) = ''/chunks?maxTokens=0''
   \<and> query_entries (list_chunks_path None None None (Some 0)) = [(''maxTokens'', Some ''0'')]"
  by code_simp

text \<open>
  C3, at the code. \<open>_request\<close> never ends with its \<open>RuntimeError\<close>: the standard opener
  hands back a response of an HTTP exchange only when its status is within 200 to 299
  and raises \<open>HTTPError\<close> itself for any other, so the test \<open>resp.status >= 400\<close> never
  holds where it stands. At a response of status 404 the call ends with the opener's
  \<open>HTTPError\<close>, which holds the response with its headers and its body; the \<open>with\<close>
  block is not entered.
\<close>

theorem error_status_never_runtime_error:
  "(\<forall>m. fst (request E path self w) \<noteq> Inl (RuntimeError m))
   \<and> request
        (fixed_env \<lparr>status = Some 404, resp_headers = [(''Content-Type'', ''text/plain'')],
                    read = Inr ''not found''\<rparr> (\<lambda>s. Inr (None :: unit option)))
        ''/files'' \<lparr>base_url = ''http://host'', headers = None\<rparr> []
     = (Inl (HTTPError \<lparr>status = Some 404, resp_headers = [(''Content-Type'', ''text/plain'')],
                        read = Inr ''not found''\<rparr>),
        \<lparr>base_url = ''http://host'', headers = None\<rparr>,
        [NewRequest ''http://host/files'' [],
         Urlopen \<lparr>req_full_url = ''http://host/files'', req_fragment = None\<rparr>])"
proof -
  let ?resp = "\<lparr>status = Some 404, resp_headers = [(''Content-Type'', ''text/plain'')],
                 read = (Inr ''not found'' :: unit + string)\<rparr>"
  let ?E = "fixed_env ?resp (\<lambda>s. Inr (None :: unit option))"
  let ?c = "\<lparr>base_url = ''http://host'', headers = None\<rparr>"
  have n: "new_request ?E (base_url ?c @ ''/files'') =
             Inr \<lparr>req_full_url = ''http://host/files'', req_fragment = None\<rparr>"
    using new_request_host_files [of ?resp "\<lambda>s. Inr (None :: unit option)"] by simp
  have x: "exchange ?E ([] @ [NewRequest (base_url ?c @ ''/files'') (headers_or_empty (headers ?c))])
             \<lparr>req_full_url = ''http://host/files'', req_fragment = None\<rparr> = Inr ?resp"
    by (simp add: fixed_env_def)
  have "request ?E ''/files'' ?c [] =
          (Inl (HTTPError ?resp), ?c,
           [] @ [NewRequest (base_url ?c @ ''/files'') (headers_or_empty (headers ?c)),
                 Urlopen \<lparr>req_full_url = ''http://host/files'', req_fragment = None\<rparr>])"
    by (rule request_http_error [OF n x, of 404]) simp_all
  then show ?thesis
    using request_no_runtime [of E path self w] by (simp add: headers_or_empty_def)
qed



text \<open>
  C5. \<open>get_chunk("a b", ref="main")\<close> builds the path \<open>/chunks/a%20b?ref=main\<close> and calls
  \<open>_request\<close> with it; in general the chunk id and a non-empty ref are each passed
  through \<open>quote\<close> on their own.
\<close>

theorem get_chunk_space_and_ref:
  "get_chunk_path ''a b'' (Some ''main'') = ''/chunks/a%20b?ref=main''
   \<and> get_chunk E ''a b'' (Some ''main'') self w = request E ''/chunks/a%20b?ref=main'' self w
   \<and> get_chunk_path chunk_id (Some (c # cs)) =
       ''/chunks/'' @ quote ''/'' chunk_id @ ''?ref='' @ quote ''/'' (c # cs)"
proof -
  have p: "get_chunk_path ''a b'' (Some ''main'') = ''/chunks/a%20b?ref=main''"
    by code_simp
  have "get_chunk E ''a b'' (Some ''main'') self w = request E ''/chunks/a%20b?ref=main'' self w"
    unfolding get_chunk_def p ..
  moreover have "get_chunk_path chunk_id (Some (c # cs)) =
       ''/chunks/'' @ quote ''/'' chunk_id @ ''?ref='' @ quote ''/'' (c # cs)"
    by (simp add: get_chunk_path_def)
  ultimately show ?thesis using p by simp
qed

text \<open>
  C6, as the code has it. The URL that \<open>_request\<close> hands to the \<open>Request\<close> constructor is
  the base URL followed by the path, character for character, for the primitive and for
  every operation: the client validates and normalises nothing and handles no trailing
  slash. The constructor then unwraps the URL and raises \<open>ValueError\<close> when it has no
  type, in which case nothing is opened; otherwise the request handed to \<open>urlopen\<close> is the
  one constructed, whose URL is the unwrapped text before its last \<open>#\<close>. For a URL that
  unwrapping leaves as it is, that has a type and no \<open>#\<close> and whose host is accepted, this
  is the URL itself.
\<close>

theorem url_handed_to_request:
  "constructed (snd (snd (request E path self w))) =
     constructed w @ [(base_url self @ path, headers_or_empty (headers self))]
   \<and> constructed (snd (snd (invoke E call self w))) =
     constructed w @ [(base_url self @ call_path call, headers_or_empty (headers self))]
   \<and> issued (snd (snd (invoke E call self w))) =
     issued w @ (case new_request E (base_url self @ call_path call) of
                   Inl e \<Rightarrow> [] | Inr req \<Rightarrow> [req])
   \<and> (unwrap url = url \<and> CHR ''#'' \<notin> set url \<and> has_scheme url \<and> request_host E url = None
        \<longrightarrow> new_request E url = Inr \<lparr>req_full_url = url, req_fragment = None\<rparr>)
   \<and> (\<not> has_scheme (fst (splittag (unwrap url'))) \<longrightarrow>
        (\<exists>u. new_request E url' = Inl (ValueError u)))
   \<and> (\<forall>req. new_request E url'' = Inr req \<longrightarrow>
        req_full_url req = fst (splittag (unwrap url'')))"
  using new_request_plain [of url E] new_request_no_scheme [of url' E]
    new_request_Inr [of E url'']
  by (simp add: request_constructed request_issued invoke_request)

text \<open>
  C6 at the base URL \<open>http://host/\<close>, where the double slash stays, at a URL with no type,
  and at a wrapped URL.
\<close>

theorem url_handed_to_request_witness:
  "unwrap ''http://host//files'' = ''http://host//files''
   \<and> new_request (fixed_env \<lparr>status = Some 200, resp_headers = [], read = Inr ''[]''\<rparr>
                     (\<lambda>s. Inr (None :: unit option))) ''http://host//files''
       = Inr \<lparr>req_full_url = ''http://host//files'', req_fragment = None\<rparr>
   \<and> \<not> has_scheme (fst (splittag (unwrap ''host/api/files'')))
   \<and> (\<exists>u. new_request (fixed_env \<lparr>status = Some 200, resp_headers = [], read = Inr ''[]''\<rparr>
                     (\<lambda>s. Inr (None :: unit option))) ''host/api/files''
           = Inl (ValueError u))
   \<and> new_request (fixed_env \<lparr>status = Some 200, resp_headers = [], read = Inr ''[]''\<rparr>
                     (\<lambda>s. Inr (None :: unit option))) ''<URL:http://host/files>''
       = Inr \<lparr>req_full_url = ''http://host/files'', req_fragment = None\<rparr>
   \<and> fst (splittag (unwrap ''<URL:http://host/files>'')) = ''http://host/files''"
proof -
  let ?E = "fixed_env \<lparr>status = Some 200, resp_headers = [], read = Inr ''[]''\<rparr>
              (\<lambda>s. Inr (None :: unit option))"
  have a: "unwrap ''http://host//files'' = ''http://host//files''" by code_simp
  have b: "CHR ''#'' \<notin> set ''http://host//files''" by simp
  have c: "has_scheme ''http://host//files''" by code_simp
  have d: "request_host ?E u = None" for u by (simp add: fixed_env_def)
  have e: "\<not> has_scheme (fst (splittag (unwrap ''host/api/files'')))" by code_simp
  have f: "new_request ?E ''<URL:http://host/files>''
             = Inr \<lparr>req_full_url = ''http://host/files'', req_fragment = None\<rparr>"
    by code_simp
  from a b c d e f
    url_handed_to_request [of ?E _ _ _ _ "''http://host//files''" "''host/api/files''"
      "''<URL:http://host/files>''"]
  show ?thesis by simp
qed

text \<open>
  C6 as stated fails: with the base URL \<open>" http://host"\<close> the URL opened has lost the
  leading space, and with the base URL \<open>"host/api "\<close> the constructor raises \<open>ValueError\<close>
  and no request is opened.
\<close>

theorem request_url_not_verbatim_counterexample:
  "issued (snd (snd (list_files
       (fixed_env \<lparr>status = Some 200, resp_headers = [], read = Inr ''[]''\<rparr>
          (\<lambda>s. Inr (None :: unit option)))
       None None None \<lparr>base_url = '' http://host'', headers = None\<rparr> [])))
     = [\<lparr>req_full_url = ''http://host/files'', req_fragment = None\<rparr>]
   \<and> '' http://host'' @ list_files_path None None None \<noteq> ''http://host/files''
   \<and> list_files
       (fixed_env \<lparr>status = Some 200, resp_headers = [], read = Inr ''[]''\<rparr>
          (\<lambda>s. Inr (None :: unit option)))
       None None None \<lparr>base_url = ''host/api '', headers = None\<rparr> []
     = (Inl (ValueError ''host/api /files''),
        \<lparr>base_url = ''host/api '', headers = None\<rparr>,
        [NewRequest ''host/api /files'' []])"
  by code_simp

text \<open>
  C7. When the parameter mapping of \<open>list_files\<close>, \<open>list_chunks\<close> or \<open>search_symbols\<close>
  comes out empty, the path is the bare endpoint and holds no \<open>?\<close>. These are all the
  operations whose mapping can be empty: the mappings of \<open>get_file\<close> and \<open>search\<close> always
  hold the required parameter, and \<open>get_chunk\<close> builds none.
\<close>

theorem empty_params_bare_path:
  "(list_files_params include exclude ref = [] \<longrightarrow>
      list_files_path include exclude ref = ''/files''
      \<and> CHR ''?'' \<notin> set (list_files_path include exclude ref))
   \<and> (list_chunks_params path lang ref' max_tokens = [] \<longrightarrow>
      list_chunks_path path lang ref' max_tokens = ''/chunks''
      \<and> CHR ''?'' \<notin> set (list_chunks_path path lang ref' max_tokens))
   \<and> (search_symbols_params query_text ref'' = [] \<longrightarrow>
      search_symbols_path query_text ref'' = ''/search/symbols''
      \<and> CHR ''?'' \<notin> set (search_symbols_path query_text ref''))
   \<and> get_file_params file_path file_ref \<noteq> []
   \<and> search_params search_text path_glob search_ref \<noteq> []"
  by (simp add: list_files_path_def list_chunks_path_def search_symbols_path_def
        get_file_params_def search_params_def Let_def)

theorem empty_params_bare_path_witness:
  "list_files_params None (Some '''') None = []
   \<and> list_files_path None (Some '''') None = ''/files''
   \<and> CHR ''?'' \<notin> set (list_files_path None (Some '''') None)
   \<and> list_chunks_params None None None None = []
   \<and> list_chunks_path None None None None = ''/chunks''
   \<and> CHR ''?'' \<notin> set (list_chunks_path None None None None)
   \<and> search_symbols_params (Some '''') None = []
   \<and> search_symbols_path (Some '''') None = ''/search/symbols''
   \<and> CHR ''?'' \<notin> set (search_symbols_path (Some '''') None)"
proof -
  have a: "list_files_params None (Some '''') None = []"
    by (simp add: list_files_params_def opt_str_def)
  have b: "list_chunks_params None None None None = []"
    by (simp add: list_chunks_params_def opt_str_def opt_int_def)
  have c: "search_symbols_params (Some '''') None = []"
    by (simp add: search_symbols_params_def opt_str_def)
  from a b c
    empty_params_bare_path [of None "Some ''''" None None None None None "Some ''''" None]
  show ?thesis by blast
qed

text \<open>
  C8. After a call of any operation, whatever its outcome, the client is the client it was
  called on, so \<open>base_url\<close> and \<open>headers\<close> are unchanged. In two calls one after the other
  the second finds the client as the first found it, and each constructs, and opens if the
  constructor accepts it, the request made from the client and its own arguments only.
\<close>

theorem client_never_mutated:
  "fst (snd (invoke E call self w)) = self
   \<and> base_url (fst (snd (invoke E call self w))) = base_url self
   \<and> headers (fst (snd (invoke E call self w))) = headers self
   \<and> (case invoke E call1 self w of (r1, self1, w1) \<Rightarrow>
        (case invoke E call2 self1 w1 of (r2, self2, w2) \<Rightarrow>
           self1 = self \<and> self2 = self
           \<and> constructed w2 = constructed w @
               [(base_url self @ call_path call1, headers_or_empty (headers self)),
                (base_url self @ call_path call2, headers_or_empty (headers self))]
           \<and> issued w2 = issued w @
               (case new_request E (base_url self @ call_path call1) of
                  Inl e \<Rightarrow> [] | Inr req \<Rightarrow> [req]) @
               (case new_request E (base_url self @ call_path call2) of
                  Inl e \<Rightarrow> [] | Inr req \<Rightarrow> [req])))"
proof -
  have keep: "fst (snd (invoke E c s v)) = s" for c s v
    by (simp add: invoke_request request_client)
  obtain r1 self1 w1 where one: "invoke E call1 self w = (r1, self1, w1)"
    by (cases "invoke E call1 self w")
  obtain r2 self2 w2 where two: "invoke E call2 self1 w1 = (r2, self2, w2)"
    by (cases "invoke E call2 self1 w1")
  from keep [of call1 self w] one have s1: "self1 = self" by simp
  from keep [of call2 self1 w1] two s1 have s2: "self2 = self" by simp
  have c1: "constructed w1 = constructed w @
              [(base_url self @ call_path call1, headers_or_empty (headers self))]"
    using request_constructed [of E "call_path call1" self w] one by (simp add: invoke_request)
  have c2: "constructed w2 = constructed w1 @
              [(base_url self @ call_path call2, headers_or_empty (headers self))]"
    using request_constructed [of E "call_path call2" self1 w1] two s1
    by (simp add: invoke_request)
  have i1: "issued w1 = issued w @
              (case new_request E (base_url self @ call_path call1) of
                 Inl e \<Rightarrow> [] | Inr req \<Rightarrow> [req])"
    using request_issued [of E "call_path call1" self w] one by (simp add: invoke_request)
  have i2: "issued w2 = issued w1 @
              (case new_request E (base_url self @ call_path call2) of
                 Inl e \<Rightarrow> [] | Inr req \<Rightarrow> [req])"
    using request_issued [of E "call_path call2" self1 w1] two s1 by (simp add: invoke_request)
  show ?thesis using keep [of call self w] one two s1 s2 c1 c2 i1 i2 by simp
qed

text \<open>
  C9. The required parameter is written whatever its value: \<open>get_file("")\<close> requests
  \<open>/file?path=\<close> and \<open>search("")\<close> requests \<open>/search?q=\<close>, each with one entry of empty
  value, and for every argument the first entry of the query is the required one.
\<close>

theorem required_params_always_written:
  "get_file_path '''' None = ''/file?path=''
   \<and> search_path '''' None None = ''/search?q=''
   \<and> get_file E '''' None self w = request E ''/file?path='' self w
   \<and> search E '''' None None self w = request E ''/search?q='' self w
   \<and> query_entries (get_file_path '''' None) = [(''path'', Some '''')]
   \<and> query_entries (search_path '''' None None) = [(''q'', Some '''')]
   \<and> hd (query_entries (get_file_path path ref)) = (''path'', Some (quote_plus path))
   \<and> hd (query_entries (search_path query_text path_glob ref)) =
       (''q'', Some (quote_plus query_text))"
proof -
  have f: "get_file_path '''' None = ''/file?path=''" by code_simp
  have s: "search_path '''' None None = ''/search?q=''" by code_simp
  have fe: "query_entries (get_file_path '''' None) = [(''path'', Some '''')]" by code_simp
  have se: "query_entries (search_path '''' None None) = [(''q'', Some '''')]" by code_simp
  have fr: "get_file E '''' None self w = request E ''/file?path='' self w"
    unfolding get_file_def f ..
  have sr: "search E '''' None None self w = request E ''/search?q='' self w"
    unfolding search_def s ..
  from f s fr sr fe se show ?thesis
    by (simp add: get_file_entries search_entries)
qed

text \<open>
  C10. \<open>quote\<close> keeps the slash, so a chunk id with a slash gives further path
  segments: \<open>get_chunk("a/b")\<close> requests \<open>/chunks/a/b\<close>, not \<open>/chunks/a%2Fb\<close>; an id
  \<open>xs/ys\<close> gives a path that starts \<open>/chunks/\<close>, \<open>quote(xs)\<close>, \<open>/\<close>, \<open>quote(ys)\<close>; and
  without a ref the path has the two slashes of \<open>/chunks/\<close> and those of the id.
\<close>

theorem get_chunk_keeps_slash:
  "get_chunk_path ''a/b'' None = ''/chunks/a/b''
   \<and> get_chunk_path ''a/b'' None \<noteq> ''/chunks/a%2Fb''
   \<and> prefix (''/chunks/'' @ quote ''/'' xs @ ''/'' @ quote ''/'' ys)
        (get_chunk_path (xs @ ''/'' @ ys) ref)
   \<and> count_list (get_chunk_path chunk_id None) CHR ''/'' = 2 + count_list chunk_id CHR ''/''"
proof -
  have ab: "get_chunk_path ''a/b'' None = ''/chunks/a/b''"
    by code_simp
  have "\<exists>query. get_chunk_path (xs @ ''/'' @ ys) ref =
          (''/chunks/'' @ quote ''/'' xs @ ''/'' @ quote ''/'' ys) @ query"
    by (simp add: get_chunk_path_def quote_append quote_slash)
  then have pre: "prefix (''/chunks/'' @ quote ''/'' xs @ ''/'' @ quote ''/'' ys)
        (get_chunk_path (xs @ ''/'' @ ys) ref)"
    by (metis prefixI)
  have "get_chunk_path chunk_id None = ''/chunks/'' @ quote ''/'' chunk_id"
    by (simp add: get_chunk_path_def)
  then have cnt: "count_list (get_chunk_path chunk_id None) CHR ''/'' =
                    2 + count_list chunk_id CHR ''/''"
    by (simp add: count_slash_quote)
  from ab pre cnt show ?thesis by simp
qed

end
